theory Spec2Isabelle
  imports Complex_Main
begin

section \<open>Data model\<close>

text \<open>
  The repository holds two versions of the Whiteboard component:
  \<^verbatim>\<open>src/components/Whiteboard.tsx\<close> and the component that follows the page in
  \<^verbatim>\<open>src/app/page.tsx\<close>. Functions that are textually the same in both are defined
  once; where the two differ, the definition taken from \<^verbatim>\<open>src/app/page.tsx\<close> carries
  the suffix \<open>_page\<close>.

  JavaScript numbers are read as reals. The only arithmetic of the component is the
  subtraction of the bounding rectangle's origin in \<open>getCoordinates\<close>.
\<close>

type_synonym number = real

record Point =
  x :: number
  y :: number

text \<open>
  A scalar property value of a JavaScript object; \<open>None\<close> of type \<open>jsval option\<close> is
  \<^verbatim>\<open>undefined\<close>, the result of reading a property the object does not have.
\<close>

datatype jsval = Num number | Str string

text \<open>
  The object passed to \<^verbatim>\<open>insert\<close> and the object found in \<^verbatim>\<open>payload.new\<close>: property
  \<^verbatim>\<open>path\<close> is a \<^verbatim>\<open>Point[]\<close> (or missing, \<open>None\<close>), as both declarations of type
  \<^verbatim>\<open>Draw\<close> say; every other property is kept under its name as written in the source,
  since the two versions differ in the name they read.
\<close>

record row =
  path :: "Point list option"
  columns :: "(string \<times> jsval) list"

definition property :: "row \<Rightarrow> string \<Rightarrow> jsval option" where
  "property draw k = map_of (columns draw) k"

text \<open>
  The canvas element: its \<^verbatim>\<open>width\<close> and \<^verbatim>\<open>height\<close> attributes, the origin of
  \<^verbatim>\<open>getBoundingClientRect()\<close>, and whether \<^verbatim>\<open>getContext('2d')\<close> yields a context.
\<close>

record canvas =
  width :: number
  height :: number
  rect_left :: number
  rect_top :: number
  context2d :: bool

datatype event =
    MouseEvent number number
  | TouchEvent "(number \<times> number) list"

text \<open>Assignments to and calls on the 2D rendering context.\<close>

datatype ctx_op =
    SetStrokeStyle "jsval option"
  | SetLineWidth "jsval option"
  | SetLineCap string
  | SetLineJoin string
  | BeginPath
  | MoveTo number number
  | LineTo number number
  | Stroke
  | ClearRect number number number number

text \<open>
  Calls on the supabase client: \<^verbatim>\<open>supabase.from(table).insert(obj)\<close>,
  \<^verbatim>\<open>channel.send({type, event})\<close> on the channel of the given name,
  \<^verbatim>\<open>channel.subscribe()\<close> and \<^verbatim>\<open>supabase.removeChannel(channel)\<close>.
\<close>

datatype request =
    Insert string row
  | Send string string string
  | Subscribe string
  | RemoveChannel string

text \<open>
  Everything the component does to the outside, in the order it does it:
  a call on the rendering context, a call on the supabase client, or
  \<^verbatim>\<open>console.error(label, text)\<close>.
\<close>

datatype effect =
    Ctx ctx_op
  | Supabase request
  | ConsoleError string string

text \<open>What the subscription delivers: a change of a table, or a broadcast event.\<close>

datatype notification =
    PostgresChanges string string string row
  | Broadcast string

text \<open>
  The component's refs and state hooks, and the trace of its effects (oldest first).
  \<open>channelRef\<close> exists in \<^verbatim>\<open>src/app/page.tsx\<close> only.
\<close>

record whiteboard =
  canvasRef :: "canvas option"
  currentPathRef :: "Point list"
  channelRef :: "string option"
  isDrawing :: bool
  color :: string
  lineWidth :: number
  effects :: "effect list"

definition initial :: whiteboard where
  "initial = \<lparr>canvasRef = None, currentPathRef = [], channelRef = None, isDrawing = False,
     color = ''#000000'', lineWidth = 5, effects = []\<rparr>"

text \<open>The \<^verbatim>\<open><canvas width={800} height={600}>\<close> element, laid out at the given origin.\<close>

definition canvas_element :: "number \<Rightarrow> number \<Rightarrow> canvas" where
  "canvas_element l t = \<lparr>width = 800, height = 600, rect_left = l, rect_top = t, context2d = True\<rparr>"

definition ctx_calls :: "ctx_op list \<Rightarrow> whiteboard \<Rightarrow> whiteboard" where
  "ctx_calls ops s = s\<lparr>effects := effects s @ map Ctx ops\<rparr>"

text \<open>\<^verbatim>\<open>canvasRef.current?.getContext('2d')\<close> is truthy.\<close>

definition getContext2d :: "canvas option \<Rightarrow> bool" where
  "getContext2d c = (case c of None \<Rightarrow> False | Some canvas \<Rightarrow> context2d canvas)"

section \<open>Rendering a stroke\<close>

text \<open>The loop \<^verbatim>\<open>for (let i = 1; i < draw.path.length; i++) ctx.lineTo(...)\<close>, from index \<open>i\<close>.\<close>

function drawPath_loop :: "Point list \<Rightarrow> nat \<Rightarrow> ctx_op list" where
  "drawPath_loop ps i =
     (if i < length ps then LineTo (x (ps ! i)) (y (ps ! i)) # drawPath_loop ps (Suc i) else [])"
  by pat_completeness auto
termination
  by (relation "measure (\<lambda>(ps, i). length ps - i)") auto

declare drawPath_loop.simps [simp del]

text \<open>\<^verbatim>\<open>drawPath\<close> of \<^verbatim>\<open>src/components/Whiteboard.tsx\<close>: the width is read from \<^verbatim>\<open>draw.lineWidth\<close>.\<close>

definition drawPath :: "row \<Rightarrow> whiteboard \<Rightarrow> whiteboard" where
  "drawPath draw s =
     (if \<not> getContext2d (canvasRef s) then s
      else case path draw of
        None \<Rightarrow> s
      | Some ps \<Rightarrow>
          if length ps < 2 then s
          else ctx_calls
            ([SetStrokeStyle (property draw ''color''),
              SetLineWidth (property draw ''lineWidth''),
              SetLineCap ''round'',
              SetLineJoin ''round'',
              BeginPath,
              MoveTo (x (ps ! 0)) (y (ps ! 0))]
             @ drawPath_loop ps 1
             @ [Stroke]) s)"

text \<open>\<^verbatim>\<open>drawPath\<close> of \<^verbatim>\<open>src/app/page.tsx\<close>: the width is read from \<^verbatim>\<open>draw.linewidth\<close>.\<close>

definition drawPath_page :: "row \<Rightarrow> whiteboard \<Rightarrow> whiteboard" where
  "drawPath_page draw s =
     (if \<not> getContext2d (canvasRef s) then s
      else case path draw of
        None \<Rightarrow> s
      | Some ps \<Rightarrow>
          if length ps < 2 then s
          else ctx_calls
            ([SetStrokeStyle (property draw ''color''),
              SetLineWidth (property draw ''linewidth''),
              SetLineCap ''round'',
              SetLineJoin ''round'',
              BeginPath,
              MoveTo (x (ps ! 0)) (y (ps ! 0))]
             @ drawPath_loop ps 1
             @ [Stroke]) s)"

section \<open>Pointer handlers\<close>

text \<open>
  \<^verbatim>\<open>getCoordinates\<close> of \<^verbatim>\<open>src/components/Whiteboard.tsx\<close>; a touch is its pair
  \<^verbatim>\<open>(clientX, clientY)\<close>, and \<^verbatim>\<open>event.touches[0]\<close> is falsy exactly on the empty list.
\<close>

definition getCoordinates :: "whiteboard \<Rightarrow> event \<Rightarrow> Point option" where
  "getCoordinates s event =
     (case canvasRef s of
        None \<Rightarrow> None
      | Some canvas \<Rightarrow>
          (case event of
             MouseEvent clientX clientY \<Rightarrow>
               Some \<lparr>x = clientX - rect_left canvas, y = clientY - rect_top canvas\<rparr>
           | TouchEvent touches \<Rightarrow>
               (case touches of
                  t # _ \<Rightarrow> Some \<lparr>x = fst t - rect_left canvas, y = snd t - rect_top canvas\<rparr>
                | [] \<Rightarrow> None)))"

text \<open>
  \<^verbatim>\<open>getCoordinates\<close> of \<^verbatim>\<open>src/app/page.tsx\<close>, which tests
  \<^verbatim>\<open>event.touches && event.touches.length > 0\<close> instead.
\<close>

definition getCoordinates_page :: "whiteboard \<Rightarrow> event \<Rightarrow> Point option" where
  "getCoordinates_page s event =
     (case canvasRef s of
        None \<Rightarrow> None
      | Some canvas \<Rightarrow>
          (case event of
             MouseEvent clientX clientY \<Rightarrow>
               Some \<lparr>x = clientX - rect_left canvas, y = clientY - rect_top canvas\<rparr>
           | TouchEvent touches \<Rightarrow>
               if length touches > 0
               then Some \<lparr>x = fst (touches ! 0) - rect_left canvas,
                          y = snd (touches ! 0) - rect_top canvas\<rparr>
               else None))"

text \<open>The handlers receive the native event of the React event (\<^verbatim>\<open>e.nativeEvent\<close>).\<close>

definition handleMouseDown :: "event \<Rightarrow> whiteboard \<Rightarrow> whiteboard" where
  "handleMouseDown e s =
     (let s1 = s\<lparr>isDrawing := True\<rparr> in
      case getCoordinates s1 e of
        None \<Rightarrow> s1
      | Some coords \<Rightarrow>
          let s2 = s1\<lparr>currentPathRef := [coords]\<rparr> in
          if \<not> getContext2d (canvasRef s2) then s2
          else ctx_calls [BeginPath, MoveTo (x coords) (y coords)] s2)"

definition handleMouseMove :: "event \<Rightarrow> whiteboard \<Rightarrow> whiteboard" where
  "handleMouseMove e s =
     (if \<not> isDrawing s then s
      else case getCoordinates s e of
        None \<Rightarrow> s
      | Some coords \<Rightarrow>
          let s1 = s\<lparr>currentPathRef := currentPathRef s @ [coords]\<rparr> in
          if \<not> getContext2d (canvasRef s1) then s1
          else ctx_calls
            [SetStrokeStyle (Some (Str (color s1))),
             SetLineWidth (Some (Num (lineWidth s1))),
             SetLineCap ''round'',
             SetLineJoin ''round'',
             LineTo (x coords) (y coords),
             Stroke] s1)"

text \<open>The object literal that \<^verbatim>\<open>handleMouseUp\<close> passes to \<^verbatim>\<open>insert\<close>.\<close>

definition insert_payload :: "whiteboard \<Rightarrow> row" where
  "insert_payload s =
     \<lparr>path = Some (currentPathRef s),
      columns = [(''color'', Str (color s)), (''linewidth'', Num (lineWidth s))]\<rparr>"

text \<open>
  \<^verbatim>\<open>handleMouseUp\<close> is asynchronous, and other handlers may run while it is suspended.
  \<open>handleMouseUp_call\<close> is what runs at the event: up to the \<^verbatim>\<open>await\<close> when a stroke is
  submitted (the flag is then \<open>True\<close>: the rest of the function is pending), and to the
  end of the function otherwise. \<open>handleMouseUp_resume\<close> is the rest of the function,
  which runs once the awaited \<^verbatim>\<open>insert\<close> has resolved with the given \<^verbatim>\<open>error\<close>
  (\<open>None\<close> for success), from the state the component is in by then.
\<close>

definition handleMouseUp_call :: "whiteboard \<Rightarrow> whiteboard \<times> bool" where
  "handleMouseUp_call s =
     (let s1 = s\<lparr>isDrawing := False\<rparr> in
      if length (currentPathRef s1) > 1
      then (s1\<lparr>effects := effects s1 @ [Supabase (Insert ''drawings'' (insert_payload s1))]\<rparr>, True)
      else (s1\<lparr>currentPathRef := []\<rparr>, False))"

definition handleMouseUp_resume :: "string option \<Rightarrow> whiteboard \<Rightarrow> whiteboard" where
  "handleMouseUp_resume error s =
     (let s1 = (case error of
                  None \<Rightarrow> s
                | Some err \<Rightarrow> s\<lparr>effects := effects s @ [ConsoleError ''Error saving drawing:'' err]\<rparr>)
      in s1\<lparr>currentPathRef := []\<rparr>)"

section \<open>Clear control and subscription\<close>

text \<open>\<^verbatim>\<open>clearCanvas\<close> of \<^verbatim>\<open>src/components/Whiteboard.tsx\<close>.\<close>

definition clearCanvas :: "whiteboard \<Rightarrow> whiteboard" where
  "clearCanvas s =
     (case canvasRef s of
        None \<Rightarrow> s
      | Some canvas \<Rightarrow>
          if context2d canvas
          then ctx_calls [ClearRect 0 0 (width canvas) (height canvas)] s
          else s)"

text \<open>\<^verbatim>\<open>clearCanvasLocal\<close> and \<^verbatim>\<open>clearCanvas\<close> of \<^verbatim>\<open>src/app/page.tsx\<close>.\<close>

definition clearCanvasLocal :: "whiteboard \<Rightarrow> whiteboard" where
  "clearCanvasLocal s =
     (case canvasRef s of
        None \<Rightarrow> s
      | Some canvas \<Rightarrow>
          if context2d canvas
          then ctx_calls [ClearRect 0 0 (width canvas) (height canvas)] s
          else s)"

definition clearCanvas_page :: "whiteboard \<Rightarrow> whiteboard" where
  "clearCanvas_page s =
     (let s1 = clearCanvasLocal s in
      case channelRef s1 of
        None \<Rightarrow> s1
      | Some channel \<Rightarrow> s1\<lparr>effects := effects s1 @ [Supabase (Send channel ''broadcast'' ''clear'')]\<rparr>)"

text \<open>
  The callbacks registered with \<^verbatim>\<open>channel.on\<close>: \<open>receive\<close> for
  \<^verbatim>\<open>src/components/Whiteboard.tsx\<close>, which registers the insert callback only, and
  \<open>receive_page\<close> for \<^verbatim>\<open>src/app/page.tsx\<close>, which also registers the clear callback.
\<close>

definition onInsert :: "row \<Rightarrow> whiteboard \<Rightarrow> whiteboard" where
  "onInsert new s = drawPath new s"

definition receive :: "notification \<Rightarrow> whiteboard \<Rightarrow> whiteboard" where
  "receive n s =
     (case n of
        PostgresChanges ev schema table new \<Rightarrow>
          if ev = ''INSERT'' \<and> schema = ''public'' \<and> table = ''drawings''
          then onInsert new s else s
      | Broadcast ev \<Rightarrow> s)"

definition receive_page :: "notification \<Rightarrow> whiteboard \<Rightarrow> whiteboard" where
  "receive_page n s =
     (case n of
        PostgresChanges ev schema table new \<Rightarrow>
          if ev = ''INSERT'' \<and> schema = ''public'' \<and> table = ''drawings''
          then drawPath_page new s else s
      | Broadcast ev \<Rightarrow>
          if ev = ''clear'' then clearCanvasLocal s else s)"

text \<open>The effect of \<^verbatim>\<open>useEffect\<close> in \<^verbatim>\<open>src/app/page.tsx\<close> and its cleanup.\<close>

definition useEffect_page :: "whiteboard \<Rightarrow> whiteboard" where
  "useEffect_page s =
     s\<lparr>channelRef := Some ''whiteboard-drawings'',
       effects := effects s @ [Supabase (Subscribe ''whiteboard-drawings'')]\<rparr>"

definition useEffect_cleanup_page :: "whiteboard \<Rightarrow> whiteboard" where
  "useEffect_cleanup_page s =
     s\<lparr>channelRef := None,
       effects := effects s @ [Supabase (RemoveChannel ''whiteboard-drawings'')]\<rparr>"

text \<open>
  The event attributes of the JSX of \<^verbatim>\<open>src/components/Whiteboard.tsx\<close>: which handler
  each event runs (\<^verbatim>\<open>src/app/page.tsx\<close> binds the same names, the Clear button to its
  own \<^verbatim>\<open>clearCanvas\<close>). \<open>dispatch\<close> is what runs at the event itself; for a release
  that is \<open>handleMouseUp_call\<close>, whose pending rest runs later, when the insert resolves.
\<close>

datatype dom_event =
    OnMouseDown event
  | OnMouseMove event
  | OnMouseUp
  | OnMouseLeave
  | OnClickClear
  | OnChangeColor string
  | OnChangeLineWidth number

fun dispatch :: "dom_event \<Rightarrow> whiteboard \<Rightarrow> whiteboard" where
  "dispatch (OnMouseDown e) s = handleMouseDown e s"
| "dispatch (OnMouseMove e) s = handleMouseMove e s"
| "dispatch OnMouseUp s = fst (handleMouseUp_call s)"
| "dispatch OnMouseLeave s = fst (handleMouseUp_call s)"
| "dispatch OnClickClear s = clearCanvas s"
| "dispatch (OnChangeColor v) s = s\<lparr>color := v\<rparr>"
| "dispatch (OnChangeLineWidth v) s = s\<lparr>lineWidth := v\<rparr>"

text \<open>The requests of a trace that address a table (\<^verbatim>\<open>supabase.from(table)\<close>).\<close>

fun table_requests :: "effect list \<Rightarrow> (string \<times> row) list" where
  "table_requests [] = []"
| "table_requests (Supabase (Insert t r) # es) = (t, r) # table_requests es"
| "table_requests (_ # es) = table_requests es"

text \<open>A sequence of events of the page, handled one after the other.\<close>

definition run :: "dom_event list \<Rightarrow> whiteboard \<Rightarrow> whiteboard" where
  "run evs s = foldl (\<lambda>s ev. dispatch ev s) s evs"

section \<open>The rendering loop\<close>

lemma drawPath_loop_drop:
  "drawPath_loop ps i = map (\<lambda>p. LineTo (x p) (y p)) (drop i ps)"
proof (induction ps i rule: drawPath_loop.induct)
  case (1 ps i)
  show ?case
  proof (cases "i < length ps")
    case True
    then have "drawPath_loop ps i = LineTo (x (ps ! i)) (y (ps ! i)) # drawPath_loop ps (Suc i)"
      by (subst drawPath_loop.simps) simp
    also have "\<dots> = LineTo (x (ps ! i)) (y (ps ! i)) # map (\<lambda>p. LineTo (x p) (y p)) (drop (Suc i) ps)"
      using 1 True by simp
    also have "\<dots> = map (\<lambda>p. LineTo (x p) (y p)) (drop i ps)"
      using True by (simp add: Cons_nth_drop_Suc [symmetric])
    finally show ?thesis .
  next
    case False
    then show ?thesis by (subst drawPath_loop.simps) simp
  qed
qed

lemma drawPath_loop_tl: "drawPath_loop ps (Suc 0) = map (\<lambda>p. LineTo (x p) (y p)) (tl ps)"
  by (simp add: drawPath_loop_drop drop_Suc)

lemma drawPath_renders:
  assumes "getContext2d (canvasRef s)" and "path draw = Some ps" and "2 \<le> length ps"
  shows "drawPath draw s = s\<lparr>effects := effects s @ map Ctx
      ([SetStrokeStyle (property draw ''color''),
        SetLineWidth (property draw ''lineWidth''),
        SetLineCap ''round'', SetLineJoin ''round'', BeginPath,
        MoveTo (x (hd ps)) (y (hd ps))]
       @ map (\<lambda>p. LineTo (x p) (y p)) (tl ps)
       @ [Stroke])\<rparr>"
proof -
  from assms(3) have "ps \<noteq> []" by auto
  then have "ps ! 0 = hd ps" by (simp add: hd_conv_nth)
  with assms show ?thesis
    by (simp add: drawPath_def ctx_calls_def drawPath_loop_tl)
qed

lemma concat_replicate_Suc_right: "concat (replicate (Suc n) a) = concat (replicate n a) @ a"
  by (induction n) simp_all

lemma receive_insert:
  "receive (PostgresChanges ''INSERT'' ''public'' ''drawings'' draw) s = drawPath draw s"
  by (simp add: receive_def onInsert_def)

section \<open>The handlers, case by case\<close>

lemma getCoordinates_canvasRef:
  "canvasRef t = canvasRef s \<Longrightarrow> getCoordinates t e = getCoordinates s e"
  by (simp add: getCoordinates_def)

lemma table_requests_append:
  "table_requests (es @ fs) = table_requests es @ table_requests fs"
  by (induction es rule: table_requests.induct) simp_all

lemma table_requests_Ctx: "table_requests (map Ctx ops) = []"
  by (induction ops) simp_all

lemma handleMouseDown_coords:
  assumes "getCoordinates s e = Some p"
  shows "handleMouseDown e s =
    (if getContext2d (canvasRef s)
     then s\<lparr>currentPathRef := [p], isDrawing := True,
            effects := effects s @ [Ctx BeginPath, Ctx (MoveTo (x p) (y p))]\<rparr>
     else s\<lparr>currentPathRef := [p], isDrawing := True\<rparr>)"
proof -
  have "getCoordinates (s\<lparr>isDrawing := True\<rparr>) e = Some p"
    using assms by (simp add: getCoordinates_def)
  then show ?thesis
    by (simp add: handleMouseDown_def ctx_calls_def Let_def)
qed


lemma handleMouseMove_coords:
  assumes "isDrawing s" and "getCoordinates s e = Some p"
  shows "handleMouseMove e s =
    (if getContext2d (canvasRef s)
     then s\<lparr>currentPathRef := currentPathRef s @ [p],
            effects := effects s @
              [Ctx (SetStrokeStyle (Some (Str (color s)))),
               Ctx (SetLineWidth (Some (Num (lineWidth s)))),
               Ctx (SetLineCap ''round''), Ctx (SetLineJoin ''round''),
               Ctx (LineTo (x p) (y p)), Ctx Stroke]\<rparr>
     else s\<lparr>currentPathRef := currentPathRef s @ [p]\<rparr>)"
  using assms by (simp add: handleMouseMove_def ctx_calls_def Let_def)

lemma handleMouseUp_call_short:
  assumes "length (currentPathRef s) < 2"
  shows "handleMouseUp_call s = (s\<lparr>currentPathRef := [], isDrawing := False\<rparr>, False)"
  using assms by (simp add: handleMouseUp_call_def Let_def)

lemma handleMouseUp_call_long:
  assumes "1 < length (currentPathRef s)"
  shows "handleMouseUp_call s =
    (s\<lparr>isDrawing := False,
       effects := effects s @ [Supabase (Insert ''drawings'' (insert_payload s))]\<rparr>, True)"
  using assms by (simp add: handleMouseUp_call_def insert_payload_def Let_def)

lemma handleMouseUp_resume_eq:
  "handleMouseUp_resume error t = t\<lparr>currentPathRef := [],
     effects := effects t @
       (case error of None \<Rightarrow> [] | Some err \<Rightarrow> [ConsoleError ''Error saving drawing:'' err])\<rparr>"
  by (simp add: handleMouseUp_resume_def split: option.split)

lemma handleMouseUp_call_idle: "isDrawing (fst (handleMouseUp_call s)) = False"
  by (simp add: handleMouseUp_call_def Let_def)



text \<open>
  The object that \<open>handleMouseUp\<close> inserts carries the width under the name
  \<^verbatim>\<open>linewidth\<close> and has no property \<^verbatim>\<open>lineWidth\<close>; the subscription callback of
  \<^verbatim>\<open>src/app/page.tsx\<close> renders it with the width that was submitted.
\<close>

lemma insert_payload_properties:
  "property (insert_payload s) ''lineWidth'' = None \<and>
   property (insert_payload s) ''linewidth'' = Some (Num (lineWidth s)) \<and>
   property (insert_payload s) ''color'' = Some (Str (color s))"
  by (simp add: property_def insert_payload_def)

lemma receive_page_submitted_width:
  "effects (receive_page (PostgresChanges ''INSERT'' ''public'' ''drawings''
       \<lparr>path = Some [\<lparr>x = 10, y = 10\<rparr>, \<lparr>x = 20, y = 10\<rparr>],
        columns = [(''color'', Str ''#ff0000''), (''linewidth'', Num 12)]\<rparr>)
     (initial\<lparr>canvasRef := Some (canvas_element 0 0)\<rparr>))
   = [Ctx (SetStrokeStyle (Some (Str ''#ff0000''))), Ctx (SetLineWidth (Some (Num 12))),
      Ctx (SetLineCap ''round''), Ctx (SetLineJoin ''round''), Ctx BeginPath,
      Ctx (MoveTo 10 10), Ctx (LineTo 20 10), Ctx Stroke]"
  by (simp add: getContext2d_def ctx_calls_def canvas_element_def initial_def
      receive_page_def drawPath_page_def drawPath_loop_tl property_def)

text \<open>
  On events of the declared type the two versions of \<open>getCoordinates\<close> agree, so the
  pointer handlers, which are otherwise the same text in both files, are defined once.
\<close>

lemma getCoordinates_page_eq: "getCoordinates_page s e = getCoordinates s e"
  by (simp add: getCoordinates_page_def getCoordinates_def
      split: option.split event.split list.split)

text \<open>Before the effect has run and after its cleanup, Clear sends nothing.\<close>

lemma clearCanvas_page_without_channel:
  "clearCanvas_page (useEffect_cleanup_page s) = clearCanvasLocal (useEffect_cleanup_page s)"
  by (simp add: clearCanvas_page_def clearCanvasLocal_def useEffect_cleanup_page_def
      ctx_calls_def Let_def split: option.split)

section \<open>Properties\<close>

text \<open>
  Claim C6. When a 2D context is available and the path \<open>ps\<close> has two or more points,
  \<open>drawPath\<close> changes nothing but the trace, to which it appends: the four style
  assignments, \<open>beginPath\<close>, a \<open>moveTo\<close> the first point, one \<open>lineTo\<close> for each further
  point in the recorded order, and a single \<open>stroke\<close>: one connected polyline through
  every point of \<open>ps\<close>.
\<close>

theorem drawPath_polyline:
  assumes "getContext2d (canvasRef s)" and "path draw = Some ps" and "2 \<le> length ps"
  shows "drawPath draw s = s\<lparr>effects := effects s @ map Ctx
      ([SetStrokeStyle (property draw ''color''),
        SetLineWidth (property draw ''lineWidth''),
        SetLineCap ''round'', SetLineJoin ''round'', BeginPath,
        MoveTo (x (hd ps)) (y (hd ps))]
       @ map (\<lambda>p. LineTo (x p) (y p)) (tl ps)
       @ [Stroke])\<rparr>"
  using assms by (rule drawPath_renders)

theorem drawPath_polyline_witness:
  "drawPath \<lparr>path = Some [\<lparr>x = 10, y = 10\<rparr>, \<lparr>x = 20, y = 10\<rparr>, \<lparr>x = 20, y = 20\<rparr>],
             columns = [(''color'', Str ''#ff0000''), (''linewidth'', Num 12)]\<rparr>
     (initial\<lparr>canvasRef := Some (canvas_element 0 0)\<rparr>)
   = initial\<lparr>canvasRef := Some (canvas_element 0 0),
       effects := [Ctx (SetStrokeStyle (Some (Str ''#ff0000''))), Ctx (SetLineWidth None),
         Ctx (SetLineCap ''round''), Ctx (SetLineJoin ''round''), Ctx BeginPath,
         Ctx (MoveTo 10 10), Ctx (LineTo 20 10), Ctx (LineTo 20 20), Ctx Stroke]\<rparr>"
  using drawPath_polyline [of "initial\<lparr>canvasRef := Some (canvas_element 0 0)\<rparr>"
      "\<lparr>path = Some [\<lparr>x = 10, y = 10\<rparr>, \<lparr>x = 20, y = 10\<rparr>, \<lparr>x = 20, y = 20\<rparr>],
             columns = [(''color'', Str ''#ff0000''), (''linewidth'', Num 12)]\<rparr>"
      "[\<lparr>x = 10, y = 10\<rparr>, \<lparr>x = 20, y = 10\<rparr>, \<lparr>x = 20, y = 20\<rparr>]"]
  by (simp add: getContext2d_def canvas_element_def initial_def property_def)

text \<open>
  Claim C7. The callback of the insert subscription keeps no record of what it has
  drawn: delivering the same insert notification \<open>n\<close> times (with a 2D context
  available and a path of two or more points) changes nothing but the trace, to which
  it appends the calls of one rendering of the stroke \<open>n\<close> times over.
\<close>

theorem insert_notification_rendered_each_time:
  assumes "getContext2d (canvasRef s)" and "path draw = Some ps" and "2 \<le> length ps"
  shows "(receive (PostgresChanges ''INSERT'' ''public'' ''drawings'' draw) ^^ n) s
    = s\<lparr>effects := effects s @ concat (replicate n (map Ctx
      ([SetStrokeStyle (property draw ''color''),
        SetLineWidth (property draw ''lineWidth''),
        SetLineCap ''round'', SetLineJoin ''round'', BeginPath,
        MoveTo (x (hd ps)) (y (hd ps))]
       @ map (\<lambda>p. LineTo (x p) (y p)) (tl ps)
       @ [Stroke])))\<rparr>"
proof (induction n)
  case 0
  show ?case by simp
next
  case (Suc n)
  let ?r = "receive (PostgresChanges ''INSERT'' ''public'' ''drawings'' draw)"
  let ?ops = "map Ctx
      ([SetStrokeStyle (property draw ''color''),
        SetLineWidth (property draw ''lineWidth''),
        SetLineCap ''round'', SetLineJoin ''round'', BeginPath,
        MoveTo (x (hd ps)) (y (hd ps))]
       @ map (\<lambda>p. LineTo (x p) (y p)) (tl ps)
       @ [Stroke])"
  let ?t = "s\<lparr>effects := effects s @ concat (replicate n ?ops)\<rparr>"
  have ctx: "getContext2d (canvasRef ?t)" using assms(1) by simp
  have "(?r ^^ Suc n) s = ?r ?t" using Suc.IH by simp
  also have "\<dots> = drawPath draw ?t" by (rule receive_insert)
  also have "\<dots> = ?t\<lparr>effects := effects ?t @ ?ops\<rparr>"
    by (rule drawPath_renders [OF ctx assms(2) assms(3)])
  also have "\<dots> = s\<lparr>effects := effects s @ concat (replicate (Suc n) ?ops)\<rparr>"
    by (simp only: concat_replicate_Suc_right) simp
  finally show ?case .
qed

theorem insert_notification_rendered_each_time_witness:
  "effects ((receive (PostgresChanges ''INSERT'' ''public'' ''drawings''
       \<lparr>path = Some [\<lparr>x = 1, y = 2\<rparr>, \<lparr>x = 3, y = 4\<rparr>],
        columns = [(''color'', Str ''#00ff00''), (''linewidth'', Num 3)]\<rparr>) ^^ 2)
     (initial\<lparr>canvasRef := Some (canvas_element 0 0)\<rparr>))
   = [Ctx (SetStrokeStyle (Some (Str ''#00ff00''))), Ctx (SetLineWidth None),
      Ctx (SetLineCap ''round''), Ctx (SetLineJoin ''round''), Ctx BeginPath,
      Ctx (MoveTo 1 2), Ctx (LineTo 3 4), Ctx Stroke,
      Ctx (SetStrokeStyle (Some (Str ''#00ff00''))), Ctx (SetLineWidth None),
      Ctx (SetLineCap ''round''), Ctx (SetLineJoin ''round''), Ctx BeginPath,
      Ctx (MoveTo 1 2), Ctx (LineTo 3 4), Ctx Stroke]"
  using insert_notification_rendered_each_time
    [of "initial\<lparr>canvasRef := Some (canvas_element 0 0)\<rparr>"
      "\<lparr>path = Some [\<lparr>x = 1, y = 2\<rparr>, \<lparr>x = 3, y = 4\<rparr>],
        columns = [(''color'', Str ''#00ff00''), (''linewidth'', Num 3)]\<rparr>"
      "[\<lparr>x = 1, y = 2\<rparr>, \<lparr>x = 3, y = 4\<rparr>]" 2]
  by (simp add: getContext2d_def canvas_element_def initial_def property_def numeral_2_eq_2)

text \<open>
  Claim C3. A buffered path of fewer than two points is never submitted: \<open>handleMouseUp\<close>
  ends at the event itself, with nothing pending at an \<^verbatim>\<open>await\<close>, and changes only
  \<open>isDrawing\<close> and the buffer, so the trace gains no insert (and nothing else); this is
  the whole of what the release event does. A received path of fewer than two points is
  not rendered: \<open>drawPath\<close> returns the component unchanged, without a call on the
  context.
\<close>

theorem short_path_never_submitted_nor_rendered:
  "(length (currentPathRef s) < 2 \<longrightarrow>
      handleMouseUp_call s = (s\<lparr>currentPathRef := [], isDrawing := False\<rparr>, False) \<and>
      dispatch OnMouseUp s = s\<lparr>currentPathRef := [], isDrawing := False\<rparr>) \<and>
   (path draw = Some ps \<and> length ps < 2 \<longrightarrow> drawPath draw s = s)"
  by (simp add: handleMouseUp_call_short drawPath_def)

theorem short_path_never_submitted_nor_rendered_witness:
  "currentPathRef (handleMouseDown (MouseEvent 5 5) (initial\<lparr>canvasRef := Some (canvas_element 0 0)\<rparr>))
     = [\<lparr>x = 5, y = 5\<rparr>] \<and>
   snd (handleMouseUp_call
       (handleMouseDown (MouseEvent 5 5) (initial\<lparr>canvasRef := Some (canvas_element 0 0)\<rparr>)))
     = False \<and>
   effects (dispatch OnMouseUp
       (handleMouseDown (MouseEvent 5 5) (initial\<lparr>canvasRef := Some (canvas_element 0 0)\<rparr>)))
     = [Ctx BeginPath, Ctx (MoveTo 5 5)] \<and>
   drawPath \<lparr>path = Some [\<lparr>x = 5, y = 5\<rparr>], columns = [(''color'', Str ''#000000''), (''linewidth'', Num 5)]\<rparr>
       (initial\<lparr>canvasRef := Some (canvas_element 0 0)\<rparr>)
     = initial\<lparr>canvasRef := Some (canvas_element 0 0)\<rparr>"
  using short_path_never_submitted_nor_rendered
    [of "handleMouseDown (MouseEvent 5 5) (initial\<lparr>canvasRef := Some (canvas_element 0 0)\<rparr>)"
        "\<lparr>path = Some [\<lparr>x = 5, y = 5\<rparr>], columns = [(''color'', Str ''#000000''), (''linewidth'', Num 5)]\<rparr>"
        "[\<lparr>x = 5, y = 5\<rparr>]"]
    short_path_never_submitted_nor_rendered
    [of "initial\<lparr>canvasRef := Some (canvas_element 0 0)\<rparr>"
        "\<lparr>path = Some [\<lparr>x = 5, y = 5\<rparr>], columns = [(''color'', Str ''#000000''), (''linewidth'', Num 5)]\<rparr>"
        "[\<lparr>x = 5, y = 5\<rparr>]"]
  by (simp add: handleMouseDown_def handleMouseUp_call_def getCoordinates_def getContext2d_def
      ctx_calls_def canvas_element_def initial_def Let_def)

text \<open>
  Claim C4. Pointer down where the coordinates are (10,10), move to (20,10), move to
  (20,20), release: the buffer is [(10,10)] after the down event, grows by one point per
  move in event order, and the release, at the event itself, adds exactly one insert to
  the requests on table drawings, with path [(10,10),(20,10),(20,20)] and the selected
  color and width, and is then pending at the \<^verbatim>\<open>await\<close>; when the insert resolves,
  whatever the outcome, no further request on a table is made.
\<close>

theorem scenario_down_move_move_release:
  assumes "getCoordinates s e0 = Some \<lparr>x = 10, y = 10\<rparr>"
      and "getCoordinates s e1 = Some \<lparr>x = 20, y = 10\<rparr>"
      and "getCoordinates s e2 = Some \<lparr>x = 20, y = 20\<rparr>"
  shows "currentPathRef (run [OnMouseDown e0] s) = [\<lparr>x = 10, y = 10\<rparr>] \<and>
     currentPathRef (run [OnMouseDown e0, OnMouseMove e1] s)
       = [\<lparr>x = 10, y = 10\<rparr>, \<lparr>x = 20, y = 10\<rparr>] \<and>
     currentPathRef (run [OnMouseDown e0, OnMouseMove e1, OnMouseMove e2] s)
       = [\<lparr>x = 10, y = 10\<rparr>, \<lparr>x = 20, y = 10\<rparr>, \<lparr>x = 20, y = 20\<rparr>] \<and>
     table_requests (effects (run [OnMouseDown e0, OnMouseMove e1, OnMouseMove e2, OnMouseUp] s))
       = table_requests (effects s) @
         [(''drawings'',
           \<lparr>path = Some [\<lparr>x = 10, y = 10\<rparr>, \<lparr>x = 20, y = 10\<rparr>, \<lparr>x = 20, y = 20\<rparr>],
            columns = [(''color'', Str (color s)), (''linewidth'', Num (lineWidth s))]\<rparr>)] \<and>
     snd (handleMouseUp_call (run [OnMouseDown e0, OnMouseMove e1, OnMouseMove e2] s)) \<and>
     table_requests (effects (handleMouseUp_resume error
         (run [OnMouseDown e0, OnMouseMove e1, OnMouseMove e2, OnMouseUp] s)))
       = table_requests (effects s) @
         [(''drawings'',
           \<lparr>path = Some [\<lparr>x = 10, y = 10\<rparr>, \<lparr>x = 20, y = 10\<rparr>, \<lparr>x = 20, y = 20\<rparr>],
            columns = [(''color'', Str (color s)), (''linewidth'', Num (lineWidth s))]\<rparr>)]"
proof -
  let ?p0 = "\<lparr>x = 10, y = 10\<rparr> :: Point" and ?p1 = "\<lparr>x = 20, y = 10\<rparr> :: Point"
    and ?p2 = "\<lparr>x = 20, y = 20\<rparr> :: Point"
  define a where "a = handleMouseDown e0 s"
  define b where "b = handleMouseMove e1 a"
  define c where "c = handleMouseMove e2 b"
  define d where "d = fst (handleMouseUp_call c)"
  have a: "canvasRef a = canvasRef s" "isDrawing a" "currentPathRef a = [?p0]"
    "color a = color s" "lineWidth a = lineWidth s"
    "table_requests (effects a) = table_requests (effects s)"
    unfolding a_def by (simp_all add: handleMouseDown_coords [OF assms(1)] table_requests_append)
  have "getCoordinates a e1 = Some ?p1"
    using assms(2) getCoordinates_canvasRef [OF a(1)] by simp
  note mb = handleMouseMove_coords [OF a(2) this]
  have b: "canvasRef b = canvasRef s" "isDrawing b" "currentPathRef b = [?p0, ?p1]"
    "color b = color s" "lineWidth b = lineWidth s"
    "table_requests (effects b) = table_requests (effects s)"
    unfolding b_def using a by (simp_all add: mb table_requests_append)
  have "getCoordinates b e2 = Some ?p2"
    using assms(3) getCoordinates_canvasRef [OF b(1)] by simp
  note mc = handleMouseMove_coords [OF b(2) this]
  have c: "currentPathRef c = [?p0, ?p1, ?p2]"
    "color c = color s" "lineWidth c = lineWidth s"
    "table_requests (effects c) = table_requests (effects s)"
    unfolding c_def using b by (simp_all add: mc table_requests_append)
  have "1 < length (currentPathRef c)" using c(1) by simp
  note up = handleMouseUp_call_long [OF this]
  have pending: "snd (handleMouseUp_call c)" by (simp add: up)
  have payload: "insert_payload c = \<lparr>path = Some [?p0, ?p1, ?p2],
            columns = [(''color'', Str (color s)), (''linewidth'', Num (lineWidth s))]\<rparr>"
    using c by (simp add: insert_payload_def)
  have d: "table_requests (effects d)
      = table_requests (effects s) @ [(''drawings'', insert_payload c)]"
    unfolding d_def using c(4) by (simp add: up table_requests_append)
  have e: "table_requests (effects (handleMouseUp_resume error d))
      = table_requests (effects s) @ [(''drawings'', insert_payload c)]"
    using d by (simp add: handleMouseUp_resume_eq table_requests_append split: option.split)
  from a b c d e pending payload show ?thesis
    by (simp add: run_def a_def [symmetric] b_def [symmetric] c_def [symmetric]
        d_def [symmetric])
qed

theorem scenario_down_move_move_release_witness:
  "table_requests (effects (run
      [OnMouseDown (MouseEvent 110 60), OnMouseMove (MouseEvent 120 60),
       OnMouseMove (MouseEvent 120 70), OnMouseUp]
      (initial\<lparr>canvasRef := Some (canvas_element 100 50)\<rparr>)))
   = [(''drawings'',
       \<lparr>path = Some [\<lparr>x = 10, y = 10\<rparr>, \<lparr>x = 20, y = 10\<rparr>, \<lparr>x = 20, y = 20\<rparr>],
        columns = [(''color'', Str ''#000000''), (''linewidth'', Num 5)]\<rparr>)]"
  using scenario_down_move_move_release
    [of "initial\<lparr>canvasRef := Some (canvas_element 100 50)\<rparr>"
        "MouseEvent 110 60" "MouseEvent 120 60" "MouseEvent 120 70" None]
  by (simp add: getCoordinates_def canvas_element_def initial_def)

text \<open>
  Claim C5. A release either ends at the event with the buffer empty or is pending at
  the \<^verbatim>\<open>await\<close>; the rest of \<open>handleMouseUp\<close>, which runs when the insert has resolved,
  leaves the buffer empty whatever the outcome and whatever state the component is in by
  then. On failure with \<open>err\<close> that rest adds one \<^verbatim>\<open>console.error\<close> to the trace and
  nothing else, on success it adds nothing: no second insert (no retry) and no call on
  the rendering context (what was drawn stays drawn). When the buffer holds two or more
  points and the insert fails, the release and its rest change the component in exactly
  this way: \<open>isDrawing\<close> is false, the buffer is empty, and the trace has gained one
  insert followed by one \<^verbatim>\<open>console.error\<close>.
\<close>

theorem handleMouseUp_failed_submission:
  "(\<not> snd (handleMouseUp_call s) \<longrightarrow> currentPathRef (fst (handleMouseUp_call s)) = []) \<and>
   currentPathRef (handleMouseUp_resume error t) = [] \<and>
   handleMouseUp_resume (Some err) t =
     t\<lparr>currentPathRef := [],
       effects := effects t @ [ConsoleError ''Error saving drawing:'' err]\<rparr> \<and>
   handleMouseUp_resume None t = t\<lparr>currentPathRef := []\<rparr> \<and>
   (1 < length (currentPathRef s) \<longrightarrow>
      handleMouseUp_call s =
        (s\<lparr>isDrawing := False,
           effects := effects s @ [Supabase (Insert ''drawings'' (insert_payload s))]\<rparr>, True) \<and>
      handleMouseUp_resume (Some err) (fst (handleMouseUp_call s)) =
        s\<lparr>currentPathRef := [], isDrawing := False,
          effects := effects s @
            [Supabase (Insert ''drawings'' (insert_payload s)),
             ConsoleError ''Error saving drawing:'' err]\<rparr>)"
proof -
  have "\<not> snd (handleMouseUp_call s) \<longrightarrow> currentPathRef (fst (handleMouseUp_call s)) = []"
    by (simp add: handleMouseUp_call_def Let_def)
  moreover have "currentPathRef (handleMouseUp_resume error t) = []"
    by (simp add: handleMouseUp_resume_eq)
  moreover have "1 < length (currentPathRef s) \<longrightarrow>
      handleMouseUp_resume (Some err) (fst (handleMouseUp_call s)) =
        s\<lparr>currentPathRef := [], isDrawing := False,
          effects := effects s @
            [Supabase (Insert ''drawings'' (insert_payload s)),
             ConsoleError ''Error saving drawing:'' err]\<rparr>"
    by (simp add: handleMouseUp_call_long handleMouseUp_resume_eq)
  ultimately show ?thesis
    by (simp add: handleMouseUp_call_long handleMouseUp_resume_eq)
qed

theorem handleMouseUp_failed_submission_witness:
  "handleMouseUp_resume (Some ''{}'')
     (fst (handleMouseUp_call
       (initial\<lparr>canvasRef := Some (canvas_element 0 0), isDrawing := True,
          currentPathRef := [\<lparr>x = 1, y = 1\<rparr>, \<lparr>x = 2, y = 2\<rparr>],
          effects := [Ctx BeginPath, Ctx (MoveTo 1 1), Ctx (LineTo 2 2), Ctx Stroke]\<rparr>)))
   = initial\<lparr>canvasRef := Some (canvas_element 0 0),
        effects := [Ctx BeginPath, Ctx (MoveTo 1 1), Ctx (LineTo 2 2), Ctx Stroke,
          Supabase (Insert ''drawings''
            \<lparr>path = Some [\<lparr>x = 1, y = 1\<rparr>, \<lparr>x = 2, y = 2\<rparr>],
             columns = [(''color'', Str ''#000000''), (''linewidth'', Num 5)]\<rparr>),
          ConsoleError ''Error saving drawing:'' ''{}'']\<rparr> \<and>
   snd (handleMouseUp_call (initial\<lparr>currentPathRef := [\<lparr>x = 1, y = 1\<rparr>]\<rparr>)) = False \<and>
   currentPathRef (fst (handleMouseUp_call (initial\<lparr>currentPathRef := [\<lparr>x = 1, y = 1\<rparr>]\<rparr>))) = []"
  using handleMouseUp_failed_submission
    [where s = "initial\<lparr>canvasRef := Some (canvas_element 0 0), isDrawing := True,
           currentPathRef := [\<lparr>x = 1, y = 1\<rparr>, \<lparr>x = 2, y = 2\<rparr>],
           effects := [Ctx BeginPath, Ctx (MoveTo 1 1), Ctx (LineTo 2 2), Ctx Stroke]\<rparr>"
       and err = "''{}''"]
    handleMouseUp_failed_submission
    [where s = "initial\<lparr>currentPathRef := [\<lparr>x = 1, y = 1\<rparr>]\<rparr>"]
  by (simp add: handleMouseUp_call_def insert_payload_def initial_def Let_def)

text \<open>
  Claim C8. The canvas binds \<^verbatim>\<open>onMouseLeave\<close> to the handler of \<^verbatim>\<open>onMouseUp\<close>: the two
  events run the same function, \<open>handleMouseUp\<close>. Leaving the surface ends capturing;
  when two or more points are buffered it adds one insert of the buffered stroke to the
  requests on table drawings and is pending at the \<^verbatim>\<open>await\<close>, and the buffer is empty
  once the insert has resolved; with fewer points it adds nothing to the trace and
  empties the buffer at the event.
\<close>

theorem mouse_leave_is_mouse_up:
  "dispatch OnMouseLeave = dispatch OnMouseUp \<and>
   dispatch OnMouseLeave s = fst (handleMouseUp_call s) \<and>
   isDrawing (dispatch OnMouseLeave s) = False \<and>
   (2 \<le> length (currentPathRef s) \<longrightarrow>
      snd (handleMouseUp_call s) \<and>
      table_requests (effects (dispatch OnMouseLeave s))
        = table_requests (effects s) @ [(''drawings'', insert_payload s)] \<and>
      currentPathRef (handleMouseUp_resume error (dispatch OnMouseLeave s)) = []) \<and>
   (length (currentPathRef s) < 2 \<longrightarrow>
      \<not> snd (handleMouseUp_call s) \<and>
      effects (dispatch OnMouseLeave s) = effects s \<and>
      currentPathRef (dispatch OnMouseLeave s) = [])"
proof -
  have "dispatch OnMouseLeave = dispatch OnMouseUp"
    by (rule ext) simp
  moreover have "2 \<le> length (currentPathRef s) \<longrightarrow>
      snd (handleMouseUp_call s) \<and>
      table_requests (effects (fst (handleMouseUp_call s)))
        = table_requests (effects s) @ [(''drawings'', insert_payload s)]"
    by (simp add: handleMouseUp_call_long table_requests_append)
  moreover have "length (currentPathRef s) < 2 \<longrightarrow>
      \<not> snd (handleMouseUp_call s) \<and>
      effects (fst (handleMouseUp_call s)) = effects s \<and>
      currentPathRef (fst (handleMouseUp_call s)) = []"
    by (simp add: handleMouseUp_call_short)
  ultimately show ?thesis
    by (simp add: handleMouseUp_call_idle handleMouseUp_resume_eq)
qed

theorem mouse_leave_is_mouse_up_witness:
  "table_requests (effects (run
      [OnMouseDown (MouseEvent 10 10), OnMouseMove (MouseEvent 20 10), OnMouseLeave]
      (initial\<lparr>canvasRef := Some (canvas_element 0 0)\<rparr>)))
   = [(''drawings'',
       \<lparr>path = Some [\<lparr>x = 10, y = 10\<rparr>, \<lparr>x = 20, y = 10\<rparr>],
        columns = [(''color'', Str ''#000000''), (''linewidth'', Num 5)]\<rparr>)] \<and>
   effects (run [OnMouseDown (MouseEvent 10 10), OnMouseLeave]
      (initial\<lparr>canvasRef := Some (canvas_element 0 0)\<rparr>))
   = [Ctx BeginPath, Ctx (MoveTo 10 10)]"
  using mouse_leave_is_mouse_up
    [where s = "run [OnMouseDown (MouseEvent 10 10), OnMouseMove (MouseEvent 20 10)]
      (initial\<lparr>canvasRef := Some (canvas_element 0 0)\<rparr>)"]
    mouse_leave_is_mouse_up
    [where s = "run [OnMouseDown (MouseEvent 10 10)]
      (initial\<lparr>canvasRef := Some (canvas_element 0 0)\<rparr>)"]
  by (simp add: run_def handleMouseDown_def handleMouseMove_def handleMouseUp_call_def
      getCoordinates_def getContext2d_def ctx_calls_def insert_payload_def canvas_element_def
      initial_def Let_def)

text \<open>
  Claim C9. \<open>getCoordinates\<close> returns a point or null for every event of its input type
  (the model has no failing branch, as the source has none on a \<^verbatim>\<open>MouseEvent\<close> or
  \<^verbatim>\<open>TouchEvent\<close>). It returns null exactly when the canvas reference is absent or the
  event is a touch event with no first touch; with a canvas, a mouse event yields its
  client position less the origin of the bounding rectangle, and a touch event with a
  first touch yields that touch's position less the origin.
\<close>

theorem getCoordinates_null_cases:
  "(getCoordinates s e = None \<longleftrightarrow> canvasRef s = None \<or> e = TouchEvent []) \<and>
   (canvasRef s = Some c \<longrightarrow>
      getCoordinates s (MouseEvent cx cy) = Some \<lparr>x = cx - rect_left c, y = cy - rect_top c\<rparr> \<and>
      getCoordinates s (TouchEvent (t # ts))
        = Some \<lparr>x = fst t - rect_left c, y = snd t - rect_top c\<rparr>)"
  by (auto simp add: getCoordinates_def split: option.splits event.splits list.splits)

theorem getCoordinates_null_cases_witness:
  "getCoordinates (initial\<lparr>canvasRef := Some (canvas_element 100 50)\<rparr>) (MouseEvent 110 60)
     = Some \<lparr>x = 10, y = 10\<rparr> \<and>
   getCoordinates (initial\<lparr>canvasRef := Some (canvas_element 100 50)\<rparr>) (TouchEvent [(130, 90), (0, 0)])
     = Some \<lparr>x = 30, y = 40\<rparr> \<and>
   getCoordinates (initial\<lparr>canvasRef := Some (canvas_element 100 50)\<rparr>) (TouchEvent []) = None \<and>
   getCoordinates initial (MouseEvent 110 60) = None"
  using getCoordinates_null_cases
    [of "initial\<lparr>canvasRef := Some (canvas_element 100 50)\<rparr>" "TouchEvent []"
        "canvas_element 100 50" 110 60 "(130, 90)" "[(0, 0)]"]
    getCoordinates_null_cases [of initial "MouseEvent 110 60"]
  by (simp add: canvas_element_def initial_def)




text \<open>
  Claim C1, as stated, fails for \<^verbatim>\<open>clearCanvas\<close> of \<^verbatim>\<open>src/components/Whiteboard.tsx\<close>:
  on a mounted canvas the only effect of the Clear control is the \<^verbatim>\<open>clearRect\<close> of the
  local surface; no clear broadcast is sent.
\<close>

theorem clearCanvas_no_broadcast_counterexample:
  "effects (clearCanvas (initial\<lparr>canvasRef := Some (canvas_element 0 0)\<rparr>))
   = [Ctx (ClearRect 0 0 800 600)]"
  by (simp add: clearCanvas_def ctx_calls_def canvas_element_def initial_def)

text \<open>
  Claim C1, amended. In \<^verbatim>\<open>src/app/page.tsx\<close>, with a canvas that has a 2D context and a
  channel in \<open>channelRef\<close>, \<open>clearCanvas\<close> first clears the whole local canvas rectangle and
  then sends the event \<^verbatim>\<open>clear\<close> of type \<^verbatim>\<open>broadcast\<close> on that channel, and does nothing
  else: it makes no request on a table. A client of that version (with a canvas and a
  2D context) that receives the broadcast clears its whole canvas rectangle. In
  \<^verbatim>\<open>src/components/Whiteboard.tsx\<close>, \<open>clearCanvas\<close> clears the local canvas rectangle
  only, and a received clear broadcast has no handler.
\<close>

theorem clearCanvas_page_wipes_then_broadcasts:
  assumes "canvasRef s = Some c" and "context2d c" and "channelRef s = Some ch"
  shows "clearCanvas_page s =
      s\<lparr>effects := effects s @
        [Ctx (ClearRect 0 0 (width c) (height c)), Supabase (Send ch ''broadcast'' ''clear'')]\<rparr> \<and>
    table_requests (effects (clearCanvas_page s)) = table_requests (effects s) \<and>
    (canvasRef t = Some c' \<and> context2d c' \<longrightarrow>
       receive_page (Broadcast ''clear'') t =
         t\<lparr>effects := effects t @ [Ctx (ClearRect 0 0 (width c') (height c'))]\<rparr>) \<and>
    clearCanvas s = s\<lparr>effects := effects s @ [Ctx (ClearRect 0 0 (width c) (height c))]\<rparr> \<and>
    receive (Broadcast ''clear'') t = t"
  using assms
  by (simp add: clearCanvas_page_def clearCanvasLocal_def clearCanvas_def receive_page_def
      receive_def ctx_calls_def table_requests_append Let_def)

theorem clearCanvas_page_wipes_then_broadcasts_witness:
  "effects (clearCanvas_page (useEffect_page (initial\<lparr>canvasRef := Some (canvas_element 0 0)\<rparr>)))
   = [Supabase (Subscribe ''whiteboard-drawings''), Ctx (ClearRect 0 0 800 600),
      Supabase (Send ''whiteboard-drawings'' ''broadcast'' ''clear'')] \<and>
   effects (receive_page (Broadcast ''clear'')
      (initial\<lparr>canvasRef := Some (canvas_element 30 40), effects := [Ctx BeginPath]\<rparr>))
   = [Ctx BeginPath, Ctx (ClearRect 0 0 800 600)]"
  using clearCanvas_page_wipes_then_broadcasts
    [of "useEffect_page (initial\<lparr>canvasRef := Some (canvas_element 0 0)\<rparr>)"
        "canvas_element 0 0" "''whiteboard-drawings''"
        "initial\<lparr>canvasRef := Some (canvas_element 30 40), effects := [Ctx BeginPath]\<rparr>"
        "canvas_element 30 40"]
  by (simp add: useEffect_page_def canvas_element_def initial_def)

text \<open>
  Claim C2 on the code of \<^verbatim>\<open>src/components/Whiteboard.tsx\<close>. A client selects color
  #ff0000 and width 12 and draws from (10,10) to (20,10); the release inserts a row
  with \<^verbatim>\<open>linewidth\<close> 12. A client that receives this row in the insert notification
  renders its path and color, but assigns \<^verbatim>\<open>undefined\<close> to the line width of the
  context, because \<open>drawPath\<close> reads the property \<^verbatim>\<open>lineWidth\<close>.
\<close>

theorem drawPath_drops_submitted_width:
  "table_requests (effects (run
      [OnChangeColor ''#ff0000'', OnChangeLineWidth 12,
       OnMouseDown (MouseEvent 10 10), OnMouseMove (MouseEvent 20 10), OnMouseUp]
      (initial\<lparr>canvasRef := Some (canvas_element 0 0)\<rparr>)))
   = [(''drawings'',
       \<lparr>path = Some [\<lparr>x = 10, y = 10\<rparr>, \<lparr>x = 20, y = 10\<rparr>],
        columns = [(''color'', Str ''#ff0000''), (''linewidth'', Num 12)]\<rparr>)] \<and>
   effects (receive (PostgresChanges ''INSERT'' ''public'' ''drawings''
       \<lparr>path = Some [\<lparr>x = 10, y = 10\<rparr>, \<lparr>x = 20, y = 10\<rparr>],
        columns = [(''color'', Str ''#ff0000''), (''linewidth'', Num 12)]\<rparr>)
     (initial\<lparr>canvasRef := Some (canvas_element 0 0)\<rparr>))
   = [Ctx (SetStrokeStyle (Some (Str ''#ff0000''))), Ctx (SetLineWidth None),
      Ctx (SetLineCap ''round''), Ctx (SetLineJoin ''round''), Ctx BeginPath,
      Ctx (MoveTo 10 10), Ctx (LineTo 20 10), Ctx Stroke]"
  by (simp add: run_def handleMouseDown_def handleMouseMove_def
      handleMouseUp_call_def insert_payload_def
      getCoordinates_def getContext2d_def ctx_calls_def canvas_element_def initial_def
      receive_def onInsert_def drawPath_def drawPath_loop_tl property_def Let_def)

end
